theory Spec2Isabelle
  imports Main "HOL-Library.Sublist"
begin

section \<open>JavaScript values the two clients handle\<close>

text \<open>
  Response bodies and request payloads are opaque JSON documents. Numbers are modelled as
  integers (identifiers, page numbers, HTTP statuses, milliseconds and seconds are all
  integral in this program); floating point is outside the model.
\<close>

datatype json =
    JNull
  | JBool bool
  | JNum int
  | JStr string
  | JArr "json list"
  | JObj "(string \<times> json) list"

text \<open>\<^verbatim>\<open>Record<string, unknown>\<close>: an object, as its entries in insertion order.\<close>

type_synonym json_record = "(string \<times> json) list"

text \<open>
  The value slot of a \<^verbatim>\<open>Record<string, string>\<close> of query parameters, as the run-time
  test \<^verbatim>\<open>value !== undefined && value !== null && value !== ''\<close> sees it.
\<close>

datatype qvalue = QUndefined | QNull | QStr string

type_synonym query = "(string \<times> qvalue) list"

text \<open>What a \<^verbatim>\<open>throw\<close> or a rejected promise carries: an error object with its message.\<close>

datatype js_error = Error string | SyntaxError string | TypeError string

fun message :: "js_error \<Rightarrow> string" where
  "message (Error m) = m"
| "message (SyntaxError m) = m"
| "message (TypeError m) = m"

text \<open>\<^verbatim>\<open>String(n)\<close> and \<^verbatim>\<open>`${n}`\<close> for an integral number: its decimal digits.\<close>

fun String_nat :: "nat \<Rightarrow> string" where
  "String_nat n =
     (if n < 10 then [''0123456789'' ! n]
      else String_nat (n div 10) @ [''0123456789'' ! (n mod 10)])"

declare String_nat.simps [simp del]

definition String_num :: "int \<Rightarrow> string" where
  "String_num n = (if n < 0 then CHR ''-'' # String_nat (nat (- n)) else String_nat (nat n))"

text \<open>\<^verbatim>\<open>obj[k] = v\<close> on an object held as its entries: overwrite in place, or append.\<close>

fun assign :: "string \<Rightarrow> 'v \<Rightarrow> (string \<times> 'v) list \<Rightarrow> (string \<times> 'v) list" where
  "assign k v [] = [(k, v)]"
| "assign k v ((k', v') # r) = (if k = k' then (k, v) # r else (k', v') # assign k v r)"

text \<open>\<^verbatim>\<open>if (v) query[k] = v\<close> for an optional string: undefined and \<^verbatim>\<open>''\<close> are falsy.\<close>

definition set_if_str :: "string \<Rightarrow> string option \<Rightarrow> query \<Rightarrow> query" where
  "set_if_str k v q = (case v of None \<Rightarrow> q | Some s \<Rightarrow> if s \<noteq> [] then assign k (QStr s) q else q)"

text \<open>\<^verbatim>\<open>if (v) query[k] = String(v)\<close> for an optional number: undefined and 0 are falsy.\<close>

definition set_if_num :: "string \<Rightarrow> int option \<Rightarrow> query \<Rightarrow> query" where
  "set_if_num k v q =
     (case v of None \<Rightarrow> q | Some n \<Rightarrow> if n \<noteq> 0 then assign k (QStr (String_num n)) q else q)"

text \<open>\<^verbatim>\<open>params?.field\<close>: undefined when the params object itself is omitted.\<close>

definition opt :: "'p option \<Rightarrow> ('p \<Rightarrow> 'a option) \<Rightarrow> 'a option" where
  "opt params field = (case params of None \<Rightarrow> None | Some p \<Rightarrow> field p)"

section \<open>The platform: URL, fetch, clock\<close>

text \<open>
  A \<^verbatim>\<open>URL\<close> object: the string it was constructed from, and the search parameters added to
  it through \<^verbatim>\<open>url.searchParams.set\<close>. A query string already spelled inside the
  constructor's argument (the \<^verbatim>\<open>?reload=true\<close> of the write paths) stays inside \<open>href\<close>.
\<close>

record URL =
  href :: string
  searchParams :: "(string \<times> string) list"

definition new_URL :: "string \<Rightarrow> URL" where
  "new_URL s = \<lparr>href = s, searchParams = []\<rparr>"

text \<open>\<^verbatim>\<open>URLSearchParams.set\<close>: the first pair of that name takes the value and the others
  are deleted; a new name is appended.\<close>

fun sp_set :: "string \<Rightarrow> string \<Rightarrow> (string \<times> string) list \<Rightarrow> (string \<times> string) list" where
  "sp_set k v [] = [(k, v)]"
| "sp_set k v ((k', v') # r) =
     (if k = k' then (k, v) # filter (\<lambda>e. fst e \<noteq> k) r else (k', v') # sp_set k v r)"

definition searchParams_set :: "string \<Rightarrow> string \<Rightarrow> URL \<Rightarrow> URL" where
  "searchParams_set k v u = u\<lparr>searchParams := sp_set k v (searchParams u)\<rparr>"

text \<open>
  The loop both \<^verbatim>\<open>request\<close> methods run over \<^verbatim>\<open>Object.entries(queryParams)\<close>
  (inbox-client.ts 62-68, index.ts 894-900).
\<close>

fun add_query :: "query \<Rightarrow> URL \<Rightarrow> URL" where
  "add_query [] u = u"
| "add_query ((key, v) # rest) u =
     add_query rest
       (if v \<noteq> QUndefined \<and> v \<noteq> QNull \<and> v \<noteq> QStr [] then
          (case v of QStr s \<Rightarrow> searchParams_set key s u | _ \<Rightarrow> u)
        else u)"

record http_request =
  req_url :: URL
  req_method :: string
  req_headers :: "(string \<times> string) list"
  req_body :: "string option"

record http_response =
  status :: nat
  content_length :: "string option"
  body_text :: string

definition ok :: "http_response \<Rightarrow> bool" where
  "ok r = (200 \<le> status r \<and> status r \<le> 299)"

text \<open>\<^verbatim>\<open>fetch\<close> resolves with a response or rejects (a network failure) with a TypeError.\<close>

datatype fetch_result = Rejected string | Responded http_response

text \<open>The world outside the process: the wall clock (\<^verbatim>\<open>Date.now()\<close>, in milliseconds)
  and the requests that have gone out on the network, oldest first.\<close>

record world =
  clock :: int
  sent :: "http_request list"

text \<open>The shape the token endpoint's body is cast to (inbox-client.ts 43-46).\<close>

record token_data =
  access_token :: string
  expires_in :: int

text \<open>
  What the program does not define itself: the remote service (its answer to a request,
  and how many milliseconds the answer takes, given everything that happened before),
  \<^verbatim>\<open>JSON.parse\<close> (\<open>Inl\<close> is the message of the SyntaxError it throws),
  \<^verbatim>\<open>response.json()\<close> read at the type the source casts it to (the cast is unchecked, so
  the model takes the token endpoint's body at that type; \<open>Inl\<close> again is a SyntaxError),
  \<^verbatim>\<open>JSON.stringify\<close> with its indentation, and base64 encoding.
\<close>

record platform =
  server :: "world \<Rightarrow> http_request \<Rightarrow> fetch_result \<times> nat"
  JSON_parse :: "string \<Rightarrow> string + json"
  json_as_token_data :: "string \<Rightarrow> string + token_data"
  JSON_stringify :: "nat \<Rightarrow> json \<Rightarrow> string"
  base64 :: "string \<Rightarrow> string"

definition fetch :: "platform \<Rightarrow> world \<Rightarrow> http_request \<Rightarrow> fetch_result \<times> world" where
  "fetch pf w rq =
     (case server pf w rq of
        (r, d) \<Rightarrow> (r, w\<lparr>clock := clock w + int d, sent := sent w @ [rq]\<rparr>))"

text \<open>
  What both \<^verbatim>\<open>request\<close> methods do with the response (inbox-client.ts 84-96,
  index.ts 916-929): the two texts differ only in the API's name in the message.
\<close>

definition read_response :: "platform \<Rightarrow> string \<Rightarrow> http_response \<Rightarrow> js_error + json" where
  "read_response pf api r =
     (if \<not> ok r then
        Inl (Error (''Help Scout '' @ api @ '' API error '' @ String_nat (status r) @ '': '' @ body_text r))
      else if status r = 204 \<or> content_length r = Some ''0'' then Inr (JObj [])
      else if body_text r = [] then Inr (JObj [])
      else (case JSON_parse pf (body_text r) of
              Inl m \<Rightarrow> Inl (SyntaxError m)
            | Inr j \<Rightarrow> Inr j))"

section \<open>The Docs client (index.ts 866-1143)\<close>

definition DOCS_BASE_URL :: string where
  "DOCS_BASE_URL = ''https://docsapi.helpscout.net/v1''"

record DocsClient =
  apiKey :: string

definition getAuthHeader :: "platform \<Rightarrow> DocsClient \<Rightarrow> string" where
  "getAuthHeader pf c = ''Basic '' @ base64 pf (apiKey c @ '':X'')"

text \<open>
  \<^verbatim>\<open>request\<close> (index.ts 887-930), in its two halves: the URL, headers and options it
  builds, and the fetch with the reading of the response.
\<close>

definition docs_options ::
  "platform \<Rightarrow> DocsClient \<Rightarrow> string \<Rightarrow> string \<Rightarrow> json_record option \<Rightarrow> query option
     \<Rightarrow> http_request" where
  "docs_options pf c meth path body queryParams =
     (let url = new_URL (DOCS_BASE_URL @ path);
          url = (case queryParams of None \<Rightarrow> url | Some q \<Rightarrow> add_query q url);
          headers = [(''Authorization'', getAuthHeader pf c), (''Accept'', ''application/json'')];
          with_body = (body \<noteq> None \<and> (meth = ''POST'' \<or> meth = ''PUT''));
          headers = (if with_body then assign ''Content-Type'' ''application/json'' headers
                     else headers)
      in \<lparr>req_url = url, req_method = meth, req_headers = headers,
          req_body = (case body of
                        Some b \<Rightarrow> if with_body then Some (JSON_stringify pf 0 (JObj b)) else None
                      | None \<Rightarrow> None)\<rparr>)"

definition docs_request ::
  "platform \<Rightarrow> DocsClient \<Rightarrow> world \<Rightarrow> string \<Rightarrow> string \<Rightarrow> json_record option \<Rightarrow> query option
     \<Rightarrow> (js_error + json) \<times> world" where
  "docs_request pf c w meth path body queryParams =
     (case fetch pf w (docs_options pf c meth path body queryParams) of
        (Rejected m, w') \<Rightarrow> (Inl (TypeError m), w')
      | (Responded r, w') \<Rightarrow> (read_response pf ''Docs'' r, w'))"

text \<open>The parameter objects of the listing methods; every field is optional.\<close>

record page_params =
  pp_page :: "int option"

record listCollections_params =
  lc_page :: "int option"
  lc_siteId :: "string option"
  lc_visibility :: "string option"
  lc_sort :: "string option"
  lc_order :: "string option"

record listCategories_params =
  lcat_page :: "int option"
  lcat_sort :: "string option"
  lcat_order :: "string option"

record listArticles_params =
  la_page :: "int option"
  la_status :: "string option"
  la_sort :: "string option"
  la_order :: "string option"
  la_pageSize :: "int option"

record searchArticles_params =
  sa_query :: string
  sa_collectionId :: "string option"
  sa_siteId :: "string option"
  sa_status :: "string option"
  sa_visibility :: "string option"
  sa_page :: "int option"

text \<open>\<^verbatim>\<open>'collection' | 'category'\<close>\<close>

datatype parentType = collection | category

text \<open>One constructor per public method of \<^verbatim>\<open>DocsClient\<close>, with the method's arguments.\<close>

datatype docs_op =
    listSites "int option"
  | getSite string
  | createSite json_record
  | updateSite string json_record
  | deleteSite string
  | listCollections "listCollections_params option"
  | getCollection string
  | createCollection json_record
  | updateCollection string json_record
  | deleteCollection string
  | listCategories string "listCategories_params option"
  | getCategory string
  | createCategory json_record
  | updateCategory string json_record
  | updateCategoryOrder string "(string \<times> int) list"
  | deleteCategory string
  | listArticles string parentType "listArticles_params option"
  | searchArticles searchArticles_params
  | getArticle string "bool option"
  | createArticle json_record
  | updateArticle string json_record
  | deleteArticle string
  | listRelatedArticles string "page_params option"
  | listRevisions string "page_params option"
  | getRevision string
  | saveArticleDraft string string
  | deleteArticleDraft string
  | updateViewCount string int
  | listRedirects string "page_params option"
  | getRedirect string
  | findRedirect string string
  | createRedirect json_record
  | updateRedirect string json_record
  | deleteRedirect string

text \<open>The arguments a method hands to \<^verbatim>\<open>this.request(method, path, body, queryParams)\<close>.\<close>

record descriptor =
  d_method :: string
  d_path :: string
  d_body :: "json_record option"
  d_query :: "query option"

definition descr :: "string \<Rightarrow> string \<Rightarrow> json_record option \<Rightarrow> query option \<Rightarrow> descriptor" where
  "descr m p b q = \<lparr>d_method = m, d_path = p, d_body = b, d_query = q\<rparr>"

fun docs_descriptor :: "docs_op \<Rightarrow> descriptor" where
  "docs_descriptor (listSites page) =
     descr ''GET'' ''/sites'' None
       (Some [(''page'', QStr (String_num (case page of None \<Rightarrow> 1 | Some p \<Rightarrow> p)))])"
| "docs_descriptor (getSite siteId) = descr ''GET'' (''/sites/'' @ siteId) None None"
| "docs_descriptor (createSite data) = descr ''POST'' ''/sites?reload=true'' (Some data) None"
| "docs_descriptor (updateSite siteId data) =
     descr ''PUT'' (''/sites/'' @ siteId @ ''?reload=true'') (Some data) None"
| "docs_descriptor (deleteSite siteId) = descr ''DELETE'' (''/sites/'' @ siteId) None None"
| "docs_descriptor (listCollections params) =
     (let q = [];
          q = set_if_num ''page'' (opt params lc_page) q;
          q = set_if_str ''siteId'' (opt params lc_siteId) q;
          q = set_if_str ''visibility'' (opt params lc_visibility) q;
          q = set_if_str ''sort'' (opt params lc_sort) q;
          q = set_if_str ''order'' (opt params lc_order) q
      in descr ''GET'' ''/collections'' None (Some q))"
| "docs_descriptor (getCollection collectionId) =
     descr ''GET'' (''/collections/'' @ collectionId) None None"
| "docs_descriptor (createCollection data) =
     descr ''POST'' ''/collections?reload=true'' (Some data) None"
| "docs_descriptor (updateCollection collectionId data) =
     descr ''PUT'' (''/collections/'' @ collectionId @ ''?reload=true'') (Some data) None"
| "docs_descriptor (deleteCollection collectionId) =
     descr ''DELETE'' (''/collections/'' @ collectionId) None None"
| "docs_descriptor (listCategories collectionId params) =
     (let q = [];
          q = set_if_num ''page'' (opt params lcat_page) q;
          q = set_if_str ''sort'' (opt params lcat_sort) q;
          q = set_if_str ''order'' (opt params lcat_order) q
      in descr ''GET'' (''/collections/'' @ collectionId @ ''/categories'') None (Some q))"
| "docs_descriptor (getCategory categoryId) =
     descr ''GET'' (''/categories/'' @ categoryId) None None"
| "docs_descriptor (createCategory data) =
     descr ''POST'' ''/categories?reload=true'' (Some data) None"
| "docs_descriptor (updateCategory categoryId data) =
     descr ''PUT'' (''/categories/'' @ categoryId @ ''?reload=true'') (Some data) None"
| "docs_descriptor (updateCategoryOrder collectionId categories) =
     descr ''PUT'' (''/collections/'' @ collectionId @ ''/categories'')
       (Some [(''categories'',
               JArr (map (\<lambda>c. JObj [(''id'', JStr (fst c)), (''order'', JNum (snd c))]) categories))])
       None"
| "docs_descriptor (deleteCategory categoryId) =
     descr ''DELETE'' (''/categories/'' @ categoryId) None None"
| "docs_descriptor (listArticles parentId parentType params) =
     (let basePath = (if parentType = collection
                      then ''/collections/'' @ parentId @ ''/articles''
                      else ''/categories/'' @ parentId @ ''/articles'');
          q = [];
          q = set_if_num ''page'' (opt params la_page) q;
          q = set_if_str ''status'' (opt params la_status) q;
          q = set_if_str ''sort'' (opt params la_sort) q;
          q = set_if_str ''order'' (opt params la_order) q;
          q = set_if_num ''pageSize'' (opt params la_pageSize) q
      in descr ''GET'' basePath None (Some q))"
| "docs_descriptor (searchArticles params) =
     (let q = [(''query'', QStr (sa_query params))];
          q = set_if_str ''collectionId'' (sa_collectionId params) q;
          q = set_if_str ''siteId'' (sa_siteId params) q;
          q = set_if_str ''status'' (sa_status params) q;
          q = set_if_str ''visibility'' (sa_visibility params) q;
          q = set_if_num ''page'' (sa_page params) q
      in descr ''GET'' ''/search/articles'' None (Some q))"
| "docs_descriptor (getArticle articleIdOrNumber draft) =
     (let q = [];
          q = (if (case draft of None \<Rightarrow> False | Some d \<Rightarrow> d)
               then assign ''draft'' (QStr ''true'') q else q)
      in descr ''GET'' (''/articles/'' @ articleIdOrNumber) None (Some q))"
| "docs_descriptor (createArticle data) =
     descr ''POST'' ''/articles?reload=true'' (Some data) None"
| "docs_descriptor (updateArticle articleId data) =
     descr ''PUT'' (''/articles/'' @ articleId @ ''?reload=true'') (Some data) None"
| "docs_descriptor (deleteArticle articleId) =
     descr ''DELETE'' (''/articles/'' @ articleId) None None"
| "docs_descriptor (listRelatedArticles articleId params) =
     (let q = [];
          q = set_if_num ''page'' (opt params pp_page) q
      in descr ''GET'' (''/articles/'' @ articleId @ ''/related'') None (Some q))"
| "docs_descriptor (listRevisions articleId params) =
     (let q = [];
          q = set_if_num ''page'' (opt params pp_page) q
      in descr ''GET'' (''/articles/'' @ articleId @ ''/revisions'') None (Some q))"
| "docs_descriptor (getRevision revisionId) =
     descr ''GET'' (''/revisions/'' @ revisionId) None None"
| "docs_descriptor (saveArticleDraft articleId txt) =
     descr ''PUT'' (''/articles/'' @ articleId @ ''/drafts'') (Some [(''text'', JStr txt)]) None"
| "docs_descriptor (deleteArticleDraft articleId) =
     descr ''DELETE'' (''/articles/'' @ articleId @ ''/drafts'') None None"
| "docs_descriptor (updateViewCount articleId count) =
     descr ''PUT'' (''/articles/'' @ articleId @ ''/views'') (Some [(''count'', JNum count)]) None"
| "docs_descriptor (listRedirects siteId params) =
     (let q = [];
          q = set_if_num ''page'' (opt params pp_page) q
      in descr ''GET'' (''/redirects/site/'' @ siteId) None (Some q))"
| "docs_descriptor (getRedirect redirectId) =
     descr ''GET'' (''/redirects/'' @ redirectId) None None"
| "docs_descriptor (findRedirect siteId u) =
     descr ''GET'' (''/redirects/site/'' @ siteId) None (Some [(''url'', QStr u)])"
| "docs_descriptor (createRedirect data) =
     descr ''POST'' ''/redirects?reload=true'' (Some data) None"
| "docs_descriptor (updateRedirect redirectId data) =
     descr ''PUT'' (''/redirects/'' @ redirectId @ ''?reload=true'') (Some data) None"
| "docs_descriptor (deleteRedirect redirectId) =
     descr ''DELETE'' (''/redirects/'' @ redirectId) None None"

text \<open>Calling a method of the client: \<^verbatim>\<open>return this.request(...)\<close>.\<close>

definition docs_call :: "platform \<Rightarrow> DocsClient \<Rightarrow> world \<Rightarrow> docs_op \<Rightarrow> (js_error + json) \<times> world" where
  "docs_call pf c w op =
     (let d = docs_descriptor op
      in docs_request pf c w (d_method d) (d_path d) (d_body d) (d_query d))"

section \<open>The Inbox client (inbox-client.ts)\<close>

definition INBOX_BASE_URL :: string where
  "INBOX_BASE_URL = ''https://api.helpscout.net/v2''"

definition TOKEN_URL :: string where
  "TOKEN_URL = ''https://api.helpscout.net/v2/oauth2/token''"

record InboxClient =
  appId :: string
  appSecret :: string
  accessToken :: "string option"
  tokenExpiry :: int

definition new_InboxClient :: "string \<Rightarrow> string \<Rightarrow> InboxClient" where
  "new_InboxClient i s = \<lparr>appId = i, appSecret = s, accessToken = None, tokenExpiry = 0\<rparr>"

text \<open>\<^verbatim>\<open>this.accessToken && Date.now() < this.tokenExpiry\<close>: null and \<^verbatim>\<open>''\<close> are falsy.\<close>

definition token_usable :: "InboxClient \<Rightarrow> world \<Rightarrow> bool" where
  "token_usable c w =
     ((case accessToken c of None \<Rightarrow> False | Some t \<Rightarrow> t \<noteq> []) \<and> clock w < tokenExpiry c)"

text \<open>The token-exchange request (inbox-client.ts 28-36).\<close>

definition token_request :: "platform \<Rightarrow> InboxClient \<Rightarrow> http_request" where
  "token_request pf c =
     \<lparr>req_url = new_URL TOKEN_URL, req_method = ''POST'',
      req_headers = [(''Content-Type'', ''application/json'')],
      req_body = Some (JSON_stringify pf 0
                   (JObj [(''grant_type'', JStr ''client_credentials''),
                          (''client_id'', JStr (appId c)),
                          (''client_secret'', JStr (appSecret c))]))\<rparr>"

text \<open>The exchange itself (inbox-client.ts 28-50): the fetch, the test of the status, and
  the two assignments.\<close>

definition exchange_token ::
  "platform \<Rightarrow> InboxClient \<Rightarrow> world \<Rightarrow> (js_error + string) \<times> InboxClient \<times> world" where
  "exchange_token pf c w =
     (case fetch pf w (token_request pf c) of
        (Rejected m, w') \<Rightarrow> (Inl (TypeError m), c, w')
      | (Responded r, w') \<Rightarrow>
          if \<not> ok r then
            (Inl (Error (''Help Scout OAuth error '' @ String_nat (status r) @ '': '' @ body_text r)),
             c, w')
          else
            (case json_as_token_data pf (body_text r) of
               Inl m \<Rightarrow> (Inl (SyntaxError m), c, w')
             | Inr d \<Rightarrow>
                 (Inr (access_token d),
                  c\<lparr>accessToken := Some (access_token d),
                    tokenExpiry := clock w' + (expires_in d - 60) * 1000\<rparr>,
                  w')))"

text \<open>\<^verbatim>\<open>getAccessToken\<close> (inbox-client.ts 23-51): the held token when it is usable, the
  exchange otherwise.\<close>

definition getAccessToken ::
  "platform \<Rightarrow> InboxClient \<Rightarrow> world \<Rightarrow> (js_error + string) \<times> InboxClient \<times> world" where
  "getAccessToken pf c w =
     (case accessToken c of
        Some t \<Rightarrow> if token_usable c w then (Inr t, c, w) else exchange_token pf c w
      | None \<Rightarrow> exchange_token pf c w)"

text \<open>\<^verbatim>\<open>request\<close> (inbox-client.ts 53-97): the options it builds once it holds a token,
  and the whole method.\<close>

definition inbox_options ::
  "platform \<Rightarrow> string \<Rightarrow> string \<Rightarrow> string \<Rightarrow> json_record option \<Rightarrow> query option
     \<Rightarrow> http_request" where
  "inbox_options pf token meth path body queryParams =
     (let url = new_URL (INBOX_BASE_URL @ path);
          url = (case queryParams of None \<Rightarrow> url | Some q \<Rightarrow> add_query q url);
          headers = [(''Authorization'', ''Bearer '' @ token), (''Accept'', ''application/json'')];
          with_body = (body \<noteq> None \<and> (meth = ''POST'' \<or> meth = ''PUT'' \<or> meth = ''PATCH''));
          headers = (if with_body then assign ''Content-Type'' ''application/json'' headers
                     else headers)
      in \<lparr>req_url = url, req_method = meth, req_headers = headers,
          req_body = (case body of
                        Some b \<Rightarrow> if with_body then Some (JSON_stringify pf 0 (JObj b)) else None
                      | None \<Rightarrow> None)\<rparr>)"

definition inbox_request ::
  "platform \<Rightarrow> InboxClient \<Rightarrow> world \<Rightarrow> string \<Rightarrow> string \<Rightarrow> json_record option \<Rightarrow> query option
     \<Rightarrow> (js_error + json) \<times> InboxClient \<times> world" where
  "inbox_request pf c w meth path body queryParams =
     (case getAccessToken pf c w of
        (Inl e, c', w') \<Rightarrow> (Inl e, c', w')
      | (Inr token, c', w') \<Rightarrow>
          (case fetch pf w' (inbox_options pf token meth path body queryParams) of
             (Rejected m, w'') \<Rightarrow> (Inl (TypeError m), c', w'')
           | (Responded r, w'') \<Rightarrow> (read_response pf ''Inbox'' r, c', w'')))"

record listConversations_params =
  lv_mailbox :: "int option"
  lv_status :: "string option"
  lv_tag :: "string option"
  lv_assigned_to :: "int option"
  lv_modifiedSince :: "string option"
  lv_sortField :: "string option"
  lv_sortOrder :: "string option"
  lv_page :: "int option"
  lv_query :: "string option"

record listCustomers_params =
  lu_firstName :: "string option"
  lu_lastName :: "string option"
  lu_email :: "string option"
  lu_modifiedSince :: "string option"
  lu_sortField :: "string option"
  lu_sortOrder :: "string option"
  lu_page :: "int option"
  lu_query :: "string option"

text \<open>One constructor per public method of \<^verbatim>\<open>InboxClient\<close>.\<close>

datatype inbox_op =
    listConversations "listConversations_params option"
  | getConversation int "string option"
  | createConversation json_record
  | updateConversation int string string json
  | deleteConversation int
  | listThreads int
  | createReplyThread int json_record
  | createNoteThread int json_record
  | createPhoneThread int json_record
  | listCustomers "listCustomers_params option"
  | getCustomer int
  | createCustomer json_record
  | updateCustomer int json_record
  | listMailboxes "int option"
  | getMailbox int
  | listUsers "int option"
  | getUser int
  | getResourceOwner
  | listTags "int option"

fun inbox_descriptor :: "inbox_op \<Rightarrow> descriptor" where
  "inbox_descriptor (listConversations params) =
     (let q = [];
          q = set_if_num ''mailbox'' (opt params lv_mailbox) q;
          q = set_if_str ''status'' (opt params lv_status) q;
          q = set_if_str ''tag'' (opt params lv_tag) q;
          q = set_if_num ''assigned_to'' (opt params lv_assigned_to) q;
          q = set_if_str ''modifiedSince'' (opt params lv_modifiedSince) q;
          q = set_if_str ''sortField'' (opt params lv_sortField) q;
          q = set_if_str ''sortOrder'' (opt params lv_sortOrder) q;
          q = set_if_num ''page'' (opt params lv_page) q;
          q = set_if_str ''query'' (opt params lv_query) q
      in descr ''GET'' ''/conversations'' None (Some q))"
| "inbox_descriptor (getConversation conversationId embd) =
     (let q = [];
          q = set_if_str ''embed'' embd q
      in descr ''GET'' (''/conversations/'' @ String_num conversationId) None (Some q))"
| "inbox_descriptor (createConversation data) = descr ''POST'' ''/conversations'' (Some data) None"
| "inbox_descriptor (updateConversation conversationId opn pth val) =
     descr ''PATCH'' (''/conversations/'' @ String_num conversationId)
       (Some [(''op'', JStr opn), (''path'', JStr pth), (''value'', val)]) None"
| "inbox_descriptor (deleteConversation conversationId) =
     descr ''DELETE'' (''/conversations/'' @ String_num conversationId) None None"
| "inbox_descriptor (listThreads conversationId) =
     descr ''GET'' (''/conversations/'' @ String_num conversationId @ ''/threads'') None None"
| "inbox_descriptor (createReplyThread conversationId data) =
     descr ''POST'' (''/conversations/'' @ String_num conversationId @ ''/reply'') (Some data) None"
| "inbox_descriptor (createNoteThread conversationId data) =
     descr ''POST'' (''/conversations/'' @ String_num conversationId @ ''/notes'') (Some data) None"
| "inbox_descriptor (createPhoneThread conversationId data) =
     descr ''POST'' (''/conversations/'' @ String_num conversationId @ ''/phones'') (Some data) None"
| "inbox_descriptor (listCustomers params) =
     (let q = [];
          q = set_if_str ''firstName'' (opt params lu_firstName) q;
          q = set_if_str ''lastName'' (opt params lu_lastName) q;
          q = set_if_str ''email'' (opt params lu_email) q;
          q = set_if_str ''modifiedSince'' (opt params lu_modifiedSince) q;
          q = set_if_str ''sortField'' (opt params lu_sortField) q;
          q = set_if_str ''sortOrder'' (opt params lu_sortOrder) q;
          q = set_if_num ''page'' (opt params lu_page) q;
          q = set_if_str ''query'' (opt params lu_query) q
      in descr ''GET'' ''/customers'' None (Some q))"
| "inbox_descriptor (getCustomer customerId) =
     descr ''GET'' (''/customers/'' @ String_num customerId) None None"
| "inbox_descriptor (createCustomer data) = descr ''POST'' ''/customers'' (Some data) None"
| "inbox_descriptor (updateCustomer customerId data) =
     descr ''PUT'' (''/customers/'' @ String_num customerId) (Some data) None"
| "inbox_descriptor (listMailboxes page) =
     (let q = [];
          q = set_if_num ''page'' page q
      in descr ''GET'' ''/mailboxes'' None (Some q))"
| "inbox_descriptor (getMailbox mailboxId) =
     descr ''GET'' (''/mailboxes/'' @ String_num mailboxId) None None"
| "inbox_descriptor (listUsers page) =
     (let q = [];
          q = set_if_num ''page'' page q
      in descr ''GET'' ''/users'' None (Some q))"
| "inbox_descriptor (getUser userId) = descr ''GET'' (''/users/'' @ String_num userId) None None"
| "inbox_descriptor getResourceOwner = descr ''GET'' ''/users/me'' None None"
| "inbox_descriptor (listTags page) =
     (let q = [];
          q = set_if_num ''page'' page q
      in descr ''GET'' ''/tags'' None (Some q))"

definition inbox_call ::
  "platform \<Rightarrow> InboxClient \<Rightarrow> world \<Rightarrow> inbox_op \<Rightarrow> (js_error + json) \<times> InboxClient \<times> world" where
  "inbox_call pf c w op =
     (let d = inbox_descriptor op
      in inbox_request pf c w (d_method d) (d_path d) (d_body d) (d_query d))"

section \<open>The tool handlers (index.ts 22-865)\<close>

text \<open>The result envelope; an absent \<^verbatim>\<open>isError\<close> is \<open>False\<close>. Every content item is of
  type text, so the content is the list of the texts.\<close>

record envelope =
  content :: "string list"
  isError :: bool

definition fmt :: "platform \<Rightarrow> json \<Rightarrow> string" where
  "fmt pf data = JSON_stringify pf 2 data"

definition textResult :: "platform \<Rightarrow> json \<Rightarrow> envelope" where
  "textResult pf data = \<lparr>content = [fmt pf data], isError = False\<rparr>"

text \<open>What \<^verbatim>\<open>errResult\<close> is given: a caught error object, or a plain string.\<close>

datatype thrown = Err js_error | Str string

definition errResult :: "thrown \<Rightarrow> envelope" where
  "errResult e =
     (let msg = (case e of Err x \<Rightarrow> message x | Str s \<Rightarrow> s)
      in \<lparr>content = [''Error: '' @ msg], isError = True\<rparr>)"

text \<open>The three configuration values read from the process environment (index.ts 44-46).\<close>

record environment =
  HELPSCOUT_API_KEY :: "string option"
  HELPSCOUT_APP_ID :: "string option"
  HELPSCOUT_APP_SECRET :: "string option"

text \<open>The two module-level clients (index.ts 48-49); \<open>None\<close> is \<^verbatim>\<open>null\<close>.\<close>

record clients =
  docs :: "DocsClient option"
  inbox :: "InboxClient option"

definition make_clients :: "environment \<Rightarrow> clients" where
  "make_clients env =
     \<lparr>docs = (case HELPSCOUT_API_KEY env of
                Some k \<Rightarrow> if k \<noteq> [] then Some \<lparr>apiKey = k\<rparr> else None
              | None \<Rightarrow> None),
      inbox = (case (HELPSCOUT_APP_ID env, HELPSCOUT_APP_SECRET env) of
                 (Some i, Some s) \<Rightarrow> if i \<noteq> [] \<and> s \<noteq> [] then Some (new_InboxClient i s) else None
               | _ \<Rightarrow> None)\<rparr>"

text \<open>
  The body every \<^verbatim>\<open>docs_*\<close> handler shares: the guard on the client, the call inside
  \<^verbatim>\<open>try\<close>, and \<^verbatim>\<open>catch (e) { return errResult(e); }\<close>. \<open>shown\<close> is what the
  handler passes to \<^verbatim>\<open>textResult\<close>, given the client's result.
\<close>

definition with_docs ::
  "platform \<Rightarrow> clients \<Rightarrow> world \<Rightarrow> docs_op \<Rightarrow> (json \<Rightarrow> json) \<Rightarrow> envelope \<times> clients \<times> world" where
  "with_docs pf cl w op shown =
     (case docs cl of
        None \<Rightarrow> (errResult (Str ''HELPSCOUT_API_KEY not configured''), cl, w)
      | Some d \<Rightarrow>
          (case docs_call pf d w op of
             (Inl e, w') \<Rightarrow> (errResult (Err e), cl, w')
           | (Inr v, w') \<Rightarrow> (textResult pf (shown v), cl, w')))"

text \<open>The same for the \<^verbatim>\<open>inbox_*\<close> handlers; the client object keeps the token it
  acquired.\<close>

definition with_inbox ::
  "platform \<Rightarrow> clients \<Rightarrow> world \<Rightarrow> inbox_op \<Rightarrow> (json \<Rightarrow> json) \<Rightarrow> envelope \<times> clients \<times> world" where
  "with_inbox pf cl w op shown =
     (case inbox cl of
        None \<Rightarrow>
          (errResult (Str ''HELPSCOUT_APP_ID and HELPSCOUT_APP_SECRET not configured''), cl, w)
      | Some c \<Rightarrow>
          (case inbox_call pf c w op of
             (Inl e, c', w') \<Rightarrow> (errResult (Err e), cl\<lparr>inbox := Some c'\<rparr>, w')
           | (Inr v, c', w') \<Rightarrow> (textResult pf (shown v), cl\<lparr>inbox := Some c'\<rparr>, w')))"

text \<open>\<^verbatim>\<open>{ success: true, message }\<close>, shown by the handlers that discard the client's
  result.\<close>

definition success :: "string \<Rightarrow> json \<Rightarrow> json" where
  "success msg v = JObj [(''success'', JBool True), (''message'', JStr msg)]"

text \<open>A tool invocation: the tool's name with its validated arguments.\<close>

datatype docs_tool =
    docs_list_sites "int option"
  | docs_get_site string
  | docs_create_site json_record
  | docs_update_site string json_record
  | docs_delete_site string
  | docs_list_collections listCollections_params
  | docs_get_collection string
  | docs_create_collection json_record
  | docs_update_collection string json_record
  | docs_delete_collection string
  | docs_list_categories string listCategories_params
  | docs_get_category string
  | docs_create_category json_record
  | docs_update_category string json_record
  | docs_update_category_order string "(string \<times> int) list"
  | docs_delete_category string
  | docs_list_articles string parentType listArticles_params
  | docs_search_articles searchArticles_params
  | docs_get_article string "bool option"
  | docs_create_article json_record
  | docs_update_article string json_record
  | docs_delete_article string
  | docs_list_related_articles string "int option"
  | docs_list_revisions string "int option"
  | docs_get_revision string
  | docs_save_draft string string
  | docs_delete_draft string
  | docs_list_redirects string "int option"
  | docs_get_redirect string
  | docs_create_redirect json_record
  | docs_update_redirect string json_record
  | docs_delete_redirect string

datatype inbox_tool =
    inbox_list_conversations listConversations_params
  | inbox_get_conversation int "string option"
  | inbox_create_conversation json_record
  | inbox_delete_conversation int
  | inbox_list_threads int
  | inbox_create_reply int json_record
  | inbox_create_note int string
  | inbox_list_customers listCustomers_params
  | inbox_get_customer int
  | inbox_create_customer json_record
  | inbox_list_mailboxes "int option"
  | inbox_get_mailbox int
  | inbox_list_users "int option"
  | inbox_get_user int
  | inbox_get_me
  | inbox_list_tags "int option"

fun docs_handler :: "platform \<Rightarrow> clients \<Rightarrow> world \<Rightarrow> docs_tool \<Rightarrow> envelope \<times> clients \<times> world" where
  "docs_handler pf cl w (docs_list_sites page) = with_docs pf cl w (listSites page) id"
| "docs_handler pf cl w (docs_get_site siteId) = with_docs pf cl w (getSite siteId) id"
| "docs_handler pf cl w (docs_create_site params) = with_docs pf cl w (createSite params) id"
| "docs_handler pf cl w (docs_update_site siteId data) = with_docs pf cl w (updateSite siteId data) id"
| "docs_handler pf cl w (docs_delete_site siteId) =
     with_docs pf cl w (deleteSite siteId) (success (''Site '' @ siteId @ '' deleted''))"
| "docs_handler pf cl w (docs_list_collections params) =
     with_docs pf cl w (listCollections (Some params)) id"
| "docs_handler pf cl w (docs_get_collection collectionId) =
     with_docs pf cl w (getCollection collectionId) id"
| "docs_handler pf cl w (docs_create_collection params) =
     with_docs pf cl w (createCollection params) id"
| "docs_handler pf cl w (docs_update_collection collectionId data) =
     with_docs pf cl w (updateCollection collectionId data) id"
| "docs_handler pf cl w (docs_delete_collection collectionId) =
     with_docs pf cl w (deleteCollection collectionId)
       (success (''Collection '' @ collectionId @ '' deleted''))"
| "docs_handler pf cl w (docs_list_categories collectionId params) =
     with_docs pf cl w (listCategories collectionId (Some params)) id"
| "docs_handler pf cl w (docs_get_category categoryId) =
     with_docs pf cl w (getCategory categoryId) id"
| "docs_handler pf cl w (docs_create_category params) =
     with_docs pf cl w (createCategory params) id"
| "docs_handler pf cl w (docs_update_category categoryId data) =
     with_docs pf cl w (updateCategory categoryId data) id"
| "docs_handler pf cl w (docs_update_category_order collectionId categories) =
     with_docs pf cl w (updateCategoryOrder collectionId categories) id"
| "docs_handler pf cl w (docs_delete_category categoryId) =
     with_docs pf cl w (deleteCategory categoryId)
       (success (''Category '' @ categoryId @ '' deleted''))"
| "docs_handler pf cl w (docs_list_articles parentId parentType params) =
     with_docs pf cl w (listArticles parentId parentType (Some params)) id"
| "docs_handler pf cl w (docs_search_articles params) =
     with_docs pf cl w (searchArticles params) id"
| "docs_handler pf cl w (docs_get_article articleIdOrNumber draft) =
     with_docs pf cl w (getArticle articleIdOrNumber draft) id"
| "docs_handler pf cl w (docs_create_article params) =
     with_docs pf cl w (createArticle params) id"
| "docs_handler pf cl w (docs_update_article articleId data) =
     with_docs pf cl w (updateArticle articleId data) id"
| "docs_handler pf cl w (docs_delete_article articleId) =
     with_docs pf cl w (deleteArticle articleId)
       (success (''Article '' @ articleId @ '' deleted''))"
| "docs_handler pf cl w (docs_list_related_articles articleId page) =
     with_docs pf cl w (listRelatedArticles articleId (Some \<lparr>pp_page = page\<rparr>)) id"
| "docs_handler pf cl w (docs_list_revisions articleId page) =
     with_docs pf cl w (listRevisions articleId (Some \<lparr>pp_page = page\<rparr>)) id"
| "docs_handler pf cl w (docs_get_revision revisionId) =
     with_docs pf cl w (getRevision revisionId) id"
| "docs_handler pf cl w (docs_save_draft articleId txt) =
     with_docs pf cl w (saveArticleDraft articleId txt)
       (success (''Draft saved for article '' @ articleId))"
| "docs_handler pf cl w (docs_delete_draft articleId) =
     with_docs pf cl w (deleteArticleDraft articleId)
       (success (''Draft deleted for article '' @ articleId))"
| "docs_handler pf cl w (docs_list_redirects siteId page) =
     with_docs pf cl w (listRedirects siteId (Some \<lparr>pp_page = page\<rparr>)) id"
| "docs_handler pf cl w (docs_get_redirect redirectId) =
     with_docs pf cl w (getRedirect redirectId) id"
| "docs_handler pf cl w (docs_create_redirect params) =
     with_docs pf cl w (createRedirect params) id"
| "docs_handler pf cl w (docs_update_redirect redirectId data) =
     with_docs pf cl w (updateRedirect redirectId data) id"
| "docs_handler pf cl w (docs_delete_redirect redirectId) =
     with_docs pf cl w (deleteRedirect redirectId)
       (success (''Redirect '' @ redirectId @ '' deleted''))"

fun inbox_handler :: "platform \<Rightarrow> clients \<Rightarrow> world \<Rightarrow> inbox_tool \<Rightarrow> envelope \<times> clients \<times> world" where
  "inbox_handler pf cl w (inbox_list_conversations params) =
     with_inbox pf cl w (listConversations (Some params)) id"
| "inbox_handler pf cl w (inbox_get_conversation conversationId embd) =
     with_inbox pf cl w (getConversation conversationId embd) id"
| "inbox_handler pf cl w (inbox_create_conversation params) =
     with_inbox pf cl w (createConversation params) id"
| "inbox_handler pf cl w (inbox_delete_conversation conversationId) =
     with_inbox pf cl w (deleteConversation conversationId)
       (success (''Conversation '' @ String_num conversationId @ '' deleted''))"
| "inbox_handler pf cl w (inbox_list_threads conversationId) =
     with_inbox pf cl w (listThreads conversationId) id"
| "inbox_handler pf cl w (inbox_create_reply conversationId data) =
     with_inbox pf cl w (createReplyThread conversationId data) id"
| "inbox_handler pf cl w (inbox_create_note conversationId txt) =
     with_inbox pf cl w (createNoteThread conversationId [(''text'', JStr txt)]) id"
| "inbox_handler pf cl w (inbox_list_customers params) =
     with_inbox pf cl w (listCustomers (Some params)) id"
| "inbox_handler pf cl w (inbox_get_customer customerId) =
     with_inbox pf cl w (getCustomer customerId) id"
| "inbox_handler pf cl w (inbox_create_customer params) =
     with_inbox pf cl w (createCustomer params) id"
| "inbox_handler pf cl w (inbox_list_mailboxes page) = with_inbox pf cl w (listMailboxes page) id"
| "inbox_handler pf cl w (inbox_get_mailbox mailboxId) = with_inbox pf cl w (getMailbox mailboxId) id"
| "inbox_handler pf cl w (inbox_list_users page) = with_inbox pf cl w (listUsers page) id"
| "inbox_handler pf cl w (inbox_get_user userId) = with_inbox pf cl w (getUser userId) id"
| "inbox_handler pf cl w inbox_get_me = with_inbox pf cl w getResourceOwner id"
| "inbox_handler pf cl w (inbox_list_tags page) = with_inbox pf cl w (listTags page) id"

text \<open>
  \<^verbatim>\<open>main\<close> with its \<^verbatim>\<open>catch\<close> (index.ts 846-865): given whether connecting the
  transport threw, the process either exits with status 1 or keeps running; in both cases
  with the lines it wrote to the error stream.
\<close>

datatype process = Exited nat "string list" | Running "string list"

definition main :: "string option \<Rightarrow> clients \<Rightarrow> process" where
  "main connect_error cl =
     (case connect_error of
        Some e \<Rightarrow> Exited 1 [''Fatal error: '' @ e]
      | None \<Rightarrow>
          (let capabilities = [];
               capabilities = (if docs cl \<noteq> None then capabilities @ [''Docs API'']
                               else capabilities);
               capabilities = (if inbox cl \<noteq> None then capabilities @ [''Inbox API'']
                               else capabilities)
           in if length capabilities = 0 then
                Running [''Warning: No Help Scout credentials configured. Set HELPSCOUT_API_KEY for Docs API ''
                         @ ''and/or HELPSCOUT_APP_ID + HELPSCOUT_APP_SECRET for Inbox API.'']
              else Running []))"

section \<open>Vocabulary of the properties\<close>

text \<open>The HTTP request a Docs method puts on the network, and the one an Inbox method
  puts there once it holds a token.\<close>

definition docs_http :: "platform \<Rightarrow> DocsClient \<Rightarrow> docs_op \<Rightarrow> http_request" where
  "docs_http pf c op =
     (let d = docs_descriptor op
      in docs_options pf c (d_method d) (d_path d) (d_body d) (d_query d))"

definition inbox_http :: "platform \<Rightarrow> string \<Rightarrow> inbox_op \<Rightarrow> http_request" where
  "inbox_http pf token op =
     (let d = inbox_descriptor op
      in inbox_options pf token (d_method d) (d_path d) (d_body d) (d_query d))"


text \<open>The three PUT methods of the Docs client that address a sub-resource (the order of a
  collection's categories, an article's draft, an article's view count).\<close>

fun sub_resource_put :: "docs_op \<Rightarrow> bool" where
  "sub_resource_put (updateCategoryOrder collectionId categories) = True"
| "sub_resource_put (saveArticleDraft articleId txt) = True"
| "sub_resource_put (updateViewCount articleId count) = True"
| "sub_resource_put _ = False"

text \<open>The identifiers a Docs method interpolates into its path.\<close>

fun docs_ids :: "docs_op \<Rightarrow> string list" where
  "docs_ids (getSite i) = [i]"
| "docs_ids (updateSite i d) = [i]"
| "docs_ids (deleteSite i) = [i]"
| "docs_ids (getCollection i) = [i]"
| "docs_ids (updateCollection i d) = [i]"
| "docs_ids (deleteCollection i) = [i]"
| "docs_ids (listCategories i p) = [i]"
| "docs_ids (getCategory i) = [i]"
| "docs_ids (updateCategory i d) = [i]"
| "docs_ids (updateCategoryOrder i cs) = [i]"
| "docs_ids (deleteCategory i) = [i]"
| "docs_ids (listArticles i t p) = [i]"
| "docs_ids (getArticle i d) = [i]"
| "docs_ids (updateArticle i d) = [i]"
| "docs_ids (deleteArticle i) = [i]"
| "docs_ids (listRelatedArticles i p) = [i]"
| "docs_ids (listRevisions i p) = [i]"
| "docs_ids (getRevision i) = [i]"
| "docs_ids (saveArticleDraft i t) = [i]"
| "docs_ids (deleteArticleDraft i) = [i]"
| "docs_ids (updateViewCount i n) = [i]"
| "docs_ids (listRedirects i p) = [i]"
| "docs_ids (getRedirect i) = [i]"
| "docs_ids (findRedirect i u) = [i]"
| "docs_ids (updateRedirect i d) = [i]"
| "docs_ids (deleteRedirect i) = [i]"
| "docs_ids _ = []"

text \<open>A configuration value is set when it is present and not empty (JavaScript's
  truthiness of \<^verbatim>\<open>string | undefined\<close>).\<close>

definition truthy :: "string option \<Rightarrow> bool" where
  "truthy v = (case v of None \<Rightarrow> False | Some s \<Rightarrow> s \<noteq> [])"

text \<open>The token exchanges among the requests that went out.\<close>

definition token_exchanges :: "http_request list \<Rightarrow> nat" where
  "token_exchanges rqs = length (filter (\<lambda>rq. href (req_url rq) = TOKEN_URL) rqs)"



text \<open>
  A platform for the worked examples: the server is given; \<^verbatim>\<open>JSON.parse\<close> is right on
  the texts the examples use (\<^verbatim>\<open>{}\<close>, \<^verbatim>\<open>null\<close>, and texts that are not JSON); the
  token endpoint's body is the token itself, with the given lifetime in seconds.
\<close>

definition example_platform :: "(world \<Rightarrow> http_request \<Rightarrow> fetch_result \<times> nat) \<Rightarrow> int \<Rightarrow> platform" where
  "example_platform srv lifetime =
     \<lparr>server = srv,
      JSON_parse = (\<lambda>s. if s = ''{}'' then Inr (JObj [])
                        else if s = ''null'' then Inr JNull
                        else Inl ''Unexpected token''),
      json_as_token_data = (\<lambda>s. Inr \<lparr>access_token = s, expires_in = lifetime\<rparr>),
      JSON_stringify = (\<lambda>n j. []),
      base64 = (\<lambda>s. s)\<rparr>"

text \<open>The same with the network down: every fetch rejects.\<close>

definition offline :: platform where
  "offline = example_platform (\<lambda>w rq. (Rejected ''fetch failed'', 0)) 3600"


text \<open>A response with the given status and body and no content-length header; a server
  that answers a token exchange with the first response and every other request with the
  second, each after 5 milliseconds.\<close>

definition response :: "nat \<Rightarrow> string \<Rightarrow> http_response" where
  "response st body = \<lparr>status = st, content_length = None, body_text = body\<rparr>"

definition answering :: "http_response \<Rightarrow> http_response \<Rightarrow> world \<Rightarrow> http_request \<Rightarrow> fetch_result \<times> nat" where
  "answering tr ar w rq =
     (if href (req_url rq) = TOKEN_URL then (Responded tr, 5) else (Responded ar, 5))"

text \<open>Example platforms, an Inbox client whose token expired at 500, and the world at time
  1000 with nothing sent yet.\<close>

definition granting :: "int \<Rightarrow> platform" where
  "granting lifetime =
     example_platform (answering (response 200 ''tok-1'') (response 200 ''{}'')) lifetime"

definition refusing :: platform where
  "refusing = example_platform (answering (response 401 ''denied'') (response 200 ''{}'')) 3600"

definition stale_client :: InboxClient where
  "stale_client = \<lparr>appId = ''app'', appSecret = ''secret'', accessToken = Some ''old'', tokenExpiry = 500\<rparr>"

definition at_1000 :: world where
  "at_1000 = \<lparr>clock = 1000, sent = []\<rparr>"




definition no_content :: platform where
  "no_content = example_platform (answering (response 200 ''tok-1'') (response 204 [])) 3600"

section \<open>Basic facts about requests\<close>

lemma href_searchParams_set: "href (searchParams_set k v u) = href u"
  by (simp add: searchParams_set_def)

lemma href_add_query: "href (add_query q u) = href u"
  by (induction q u rule: add_query.induct)
     (simp_all add: href_searchParams_set split: qvalue.splits)

lemma fetch_eq:
  "server pf w rq = (r, d) \<Longrightarrow>
   fetch pf w rq = (r, w\<lparr>clock := clock w + int d, sent := sent w @ [rq]\<rparr>)"
  by (simp add: fetch_def)

lemma fetch_sent: "sent (snd (fetch pf w rq)) = sent w @ [rq]"
  by (simp add: fetch_def split: prod.splits)

lemma fetch_clock: "clock w \<le> clock (snd (fetch pf w rq))"
  by (simp add: fetch_def split: prod.splits)





section \<open>The write-reload convention of the Docs client\<close>

lemma reload_after_slash:
  "suffix ''?reload=true'' (xs @ CHR ''/'' # ys) \<longleftrightarrow> suffix ''?reload=true'' ys"
proof
  assume "suffix ''?reload=true'' (xs @ CHR ''/'' # ys)"
  then consider "suffix ''?reload=true'' (CHR ''/'' # ys)"
    | zs where "''?reload=true'' = zs @ CHR ''/'' # ys"
    by (auto simp: suffix_append)
  then show "suffix ''?reload=true'' ys"
  proof cases
    case 1
    then show ?thesis by (simp add: suffix_Cons)
  next
    case 2
    then have "CHR ''/'' \<in> set ''?reload=true''"
      by (metis in_set_conv_decomp)
    then show ?thesis by simp
  qed
next
  assume "suffix ''?reload=true'' ys"
  then show "suffix ''?reload=true'' (xs @ CHR ''/'' # ys)"
    by (simp add: suffix_appendI suffix_ConsI)
qed

lemma reload_appended: "suffix ''?reload=true'' (xs @ ''?reload=true'')"
  by (rule suffixI) simp

text \<open>
  Claim C1, as stated: every create or update of the Docs client (a POST or a PUT) has a
  path that ends with \<^verbatim>\<open>?reload=true\<close>, and every read or delete has not. It fails on
  the code twice. \<^verbatim>\<open>saveArticleDraft\<close> is a PUT to \<^verbatim>\<open>/articles/{id}/drafts\<close> with no
  suffix (as are \<^verbatim>\<open>updateCategoryOrder\<close> and \<^verbatim>\<open>updateViewCount\<close>); and a read
  interpolates the caller's identifier as it is, so \<^verbatim>\<open>getSite('s?reload=true')\<close> has a path
  that ends with the suffix.
\<close>

theorem docs_reload_counterexample:
  "d_method (docs_descriptor (saveArticleDraft ''a1'' ''hello'')) = ''PUT''
   \<and> d_path (docs_descriptor (saveArticleDraft ''a1'' ''hello'')) = ''/articles/a1/drafts''
   \<and> \<not> suffix ''?reload=true'' (d_path (docs_descriptor (saveArticleDraft ''a1'' ''hello'')))
   \<and> d_method (docs_descriptor (getSite ''s?reload=true'')) = ''GET''
   \<and> suffix ''?reload=true'' (d_path (docs_descriptor (getSite ''s?reload=true'')))"
  by (simp add: descr_def suffix_Cons)

text \<open>
  Claim C1, amended: every POST or PUT of the Docs client other than the three
  sub-resource PUTs (\<^verbatim>\<open>updateCategoryOrder\<close>, \<^verbatim>\<open>saveArticleDraft\<close>,
  \<^verbatim>\<open>updateViewCount\<close>) has a path that ends with \<^verbatim>\<open>?reload=true\<close>; every GET,
  every DELETE and each of those three PUTs has a path that does not end with it, as long
  as no identifier the caller passes ends with \<^verbatim>\<open>?reload=true\<close> itself.
\<close>

theorem docs_reload_paths:
  "d_method (docs_descriptor op) \<in> {''GET'', ''POST'', ''PUT'', ''DELETE''}
   \<and> (d_method (docs_descriptor op) \<in> {''POST'', ''PUT''} \<and> \<not> sub_resource_put op
      \<longrightarrow> suffix ''?reload=true'' (d_path (docs_descriptor op)))
   \<and> ((d_method (docs_descriptor op) \<in> {''GET'', ''DELETE''} \<or> sub_resource_put op)
        \<and> (\<forall>i \<in> set (docs_ids op). \<not> suffix ''?reload=true'' i)
      \<longrightarrow> \<not> suffix ''?reload=true'' (d_path (docs_descriptor op)))"
  by (cases op)
     (simp_all add: descr_def Let_def suffix_Cons reload_after_slash reload_appended)

theorem docs_reload_paths_witness:
  "d_method (docs_descriptor (updateSite ''s1'' [])) = ''PUT''
   \<and> \<not> sub_resource_put (updateSite ''s1'' [])
   \<and> suffix ''?reload=true'' (d_path (docs_descriptor (updateSite ''s1'' [])))
   \<and> d_method (docs_descriptor (deleteSite ''s1'')) = ''DELETE''
   \<and> list_all (\<lambda>i. \<not> suffix ''?reload=true'' i) (docs_ids (deleteSite ''s1''))
   \<and> \<not> suffix ''?reload=true'' (d_path (docs_descriptor (deleteSite ''s1'')))
   \<and> sub_resource_put (updateViewCount ''a1'' 7)
   \<and> \<not> suffix ''?reload=true'' (d_path (docs_descriptor (updateViewCount ''a1'' 7)))"
  using docs_reload_paths [of "updateSite ''s1'' []"] docs_reload_paths [of "deleteSite ''s1''"]
    docs_reload_paths [of "updateViewCount ''a1'' 7"]
  by (simp add: descr_def suffix_Cons)

section \<open>Listing articles under a collection or a category\<close>


section \<open>Query parameters\<close>







lemma assign_other: "k' \<noteq> k \<Longrightarrow> (k', x) \<in> set (assign k v q) \<longleftrightarrow> (k', x) \<in> set q"
  by (induction k v q rule: assign.induct) auto






















section \<open>The token cache of the Inbox client\<close>

lemma getAccessToken_unfold:
  "getAccessToken pf c w =
     (if token_usable c w then (Inr (the (accessToken c)), c, w) else exchange_token pf c w)"
  by (simp add: getAccessToken_def token_usable_def split: option.splits)

lemma getAccessToken_cached:
  "accessToken c = Some t \<Longrightarrow> t \<noteq> [] \<Longrightarrow> clock w < tokenExpiry c \<Longrightarrow>
   getAccessToken pf c w = (Inr t, c, w)"
  by (simp add: getAccessToken_unfold exchange_token_def token_usable_def)

lemma getAccessToken_rejected:
  "\<not> token_usable c w \<Longrightarrow> server pf w (token_request pf c) = (Rejected m, d) \<Longrightarrow>
   getAccessToken pf c w
     = (Inl (TypeError m), c, w\<lparr>clock := clock w + int d, sent := sent w @ [token_request pf c]\<rparr>)"
  by (simp add: getAccessToken_unfold exchange_token_def fetch_eq)

lemma getAccessToken_refused:
  "\<not> token_usable c w \<Longrightarrow> server pf w (token_request pf c) = (Responded r, d) \<Longrightarrow> \<not> ok r \<Longrightarrow>
   getAccessToken pf c w
     = (Inl (Error (''Help Scout OAuth error '' @ String_nat (status r) @ '': '' @ body_text r)),
        c, w\<lparr>clock := clock w + int d, sent := sent w @ [token_request pf c]\<rparr>)"
  by (simp add: getAccessToken_unfold exchange_token_def fetch_eq)

lemma getAccessToken_unreadable:
  "\<not> token_usable c w \<Longrightarrow> server pf w (token_request pf c) = (Responded r, d) \<Longrightarrow> ok r \<Longrightarrow>
   json_as_token_data pf (body_text r) = Inl m \<Longrightarrow>
   getAccessToken pf c w
     = (Inl (SyntaxError m), c, w\<lparr>clock := clock w + int d, sent := sent w @ [token_request pf c]\<rparr>)"
  by (simp add: getAccessToken_unfold exchange_token_def fetch_eq)

lemma getAccessToken_granted:
  "\<not> token_usable c w \<Longrightarrow> server pf w (token_request pf c) = (Responded r, d) \<Longrightarrow> ok r \<Longrightarrow>
   json_as_token_data pf (body_text r) = Inr td \<Longrightarrow>
   getAccessToken pf c w
     = (Inr (access_token td),
        c\<lparr>accessToken := Some (access_token td),
          tokenExpiry := clock w + int d + (expires_in td - 60) * 1000\<rparr>,
        w\<lparr>clock := clock w + int d, sent := sent w @ [token_request pf c]\<rparr>)"
  by (simp add: getAccessToken_unfold exchange_token_def fetch_eq)

lemma getAccessToken_failure_keeps_client:
  "fst (getAccessToken pf c w) = Inl e \<Longrightarrow> fst (snd (getAccessToken pf c w)) = c"
  by (auto simp: getAccessToken_unfold exchange_token_def split: if_splits option.splits prod.splits fetch_result.splits
      sum.splits)

lemma getAccessToken_sent_fresh:
  "\<not> token_usable c w \<Longrightarrow>
   sent (snd (snd (getAccessToken pf c w))) = sent w @ [token_request pf c]"
  using fetch_sent [of pf w "token_request pf c"]
  by (auto simp: getAccessToken_unfold exchange_token_def split: prod.splits fetch_result.splits sum.splits)

lemma inbox_request_after_token:
  "getAccessToken pf c w = (Inr token, c', w') \<Longrightarrow>
   server pf w' (inbox_options pf token m p b q) = (fr, d) \<Longrightarrow>
   inbox_request pf c w m p b q
     = ((case fr of Rejected x \<Rightarrow> Inl (TypeError x) | Responded r \<Rightarrow> read_response pf ''Inbox'' r),
        c', w'\<lparr>clock := clock w' + int d, sent := sent w' @ [inbox_options pf token m p b q]\<rparr>)"
  by (cases fr) (simp_all add: inbox_request_def fetch_eq)

lemma inbox_request_no_token:
  "getAccessToken pf c w = (Inl e, c', w') \<Longrightarrow> inbox_request pf c w m p b q = (Inl e, c', w')"
  by (simp add: inbox_request_def)

lemma inbox_request_sent_after_token:
  "getAccessToken pf c w = (Inr token, c', w') \<Longrightarrow>
   sent (snd (snd (inbox_request pf c w m p b q))) = sent w' @ [inbox_options pf token m p b q]"
proof -
  assume g: "getAccessToken pf c w = (Inr token, c', w')"
  obtain fr d where "server pf w' (inbox_options pf token m p b q) = (fr, d)"
    by (cases "server pf w' (inbox_options pf token m p b q)")
  from inbox_request_after_token [OF g this] show ?thesis by simp
qed

lemma inbox_request_sent_fresh:
  "\<not> token_usable c w \<Longrightarrow>
   \<exists>rest. sent (snd (snd (inbox_request pf c w m p b q))) = sent w @ token_request pf c # rest"
proof -
  assume fresh: "\<not> token_usable c w"
  obtain res c' w' where g: "getAccessToken pf c w = (res, c', w')"
    by (cases "getAccessToken pf c w")
  with getAccessToken_sent_fresh [OF fresh, of pf] have s: "sent w' = sent w @ [token_request pf c]"
    by simp
  show ?thesis
  proof (cases res)
    case (Inl e)
    with g s show ?thesis by (simp add: inbox_request_no_token)
  next
    case (Inr token)
    with g s inbox_request_sent_after_token [of pf c w token c' w' m p b q] show ?thesis by simp
  qed
qed

lemma inbox_http_not_token_url: "href (req_url (inbox_http pf t op)) \<noteq> TOKEN_URL"
proof -
  have h: "href (req_url (inbox_options pf t m p b q)) = INBOX_BASE_URL @ p" for m p b q
    by (cases q) (simp_all add: inbox_options_def Let_def href_add_query new_URL_def)
  show ?thesis
    by (cases op) (simp_all add: inbox_http_def h descr_def Let_def INBOX_BASE_URL_def TOKEN_URL_def)
qed

lemma token_request_url: "href (req_url (token_request pf c)) = TOKEN_URL"
  by (simp add: token_request_def new_URL_def)


lemma inbox_call_sent_cached:
  assumes "accessToken c = Some t" "t \<noteq> []" "clock w < tokenExpiry c"
  shows "fst (snd (inbox_call pf c w op)) = c"
    and "sent (snd (snd (inbox_call pf c w op))) = sent w @ [inbox_http pf t op]"
proof -
  let ?d = "inbox_descriptor op"
  obtain fr d where
    "server pf w (inbox_options pf t (d_method ?d) (d_path ?d) (d_body ?d) (d_query ?d)) = (fr, d)"
    by (cases "server pf w (inbox_options pf t (d_method ?d) (d_path ?d) (d_body ?d) (d_query ?d))")
  from inbox_request_after_token [OF getAccessToken_cached [OF assms, of pf] this]
  show "fst (snd (inbox_call pf c w op)) = c"
    and "sent (snd (snd (inbox_call pf c w op))) = sent w @ [inbox_http pf t op]"
    by (simp_all add: inbox_call_def inbox_http_def Let_def)
qed

lemma inbox_http_bearer:
  "(''Authorization'', ''Bearer '' @ t) \<in> set (req_headers (inbox_http pf t op))"
  by (simp add: inbox_http_def inbox_options_def Let_def assign_other)

lemma token_exchanges_append:
  "token_exchanges (xs @ ys) = token_exchanges xs + token_exchanges ys"
  by (simp add: token_exchanges_def)

lemma token_exchanges_api: "token_exchanges [inbox_http pf t op] = 0"
  by (simp add: token_exchanges_def inbox_http_not_token_url)

lemma token_exchanges_token: "token_exchanges [token_request pf c] = 1"
  by (simp add: token_exchanges_def token_request_url)

lemma inbox_call_granted:
  assumes "\<not> token_usable c w" "server pf w (token_request pf c) = (Responded r, d)" "ok r"
    "json_as_token_data pf (body_text r) = Inr td"
  shows "fst (snd (inbox_call pf c w op))
           = c\<lparr>accessToken := Some (access_token td),
               tokenExpiry := clock w + int d + (expires_in td - 60) * 1000\<rparr>"
    and "sent (snd (snd (inbox_call pf c w op)))
           = sent w @ [token_request pf c, inbox_http pf (access_token td) op]"
proof -
  let ?d = "inbox_descriptor op"
  let ?w' = "w\<lparr>clock := clock w + int d, sent := sent w @ [token_request pf c]\<rparr>"
  let ?o = "inbox_options pf (access_token td) (d_method ?d) (d_path ?d) (d_body ?d) (d_query ?d)"
  obtain fr d' where "server pf ?w' ?o = (fr, d')"
    by (cases "server pf ?w' ?o")
  from inbox_request_after_token [OF getAccessToken_granted [OF assms] this]
  show "fst (snd (inbox_call pf c w op))
           = c\<lparr>accessToken := Some (access_token td),
               tokenExpiry := clock w + int d + (expires_in td - 60) * 1000\<rparr>"
    and "sent (snd (snd (inbox_call pf c w op)))
           = sent w @ [token_request pf c, inbox_http pf (access_token td) op]"
    by (simp_all add: inbox_call_def inbox_http_def Let_def)
qed

lemmas example_defs =
  granting_def refusing_def example_platform_def answering_def response_def stale_client_def
  at_1000_def token_request_def new_URL_def TOKEN_URL_def ok_def token_usable_def
  new_InboxClient_def

text \<open>
  Claim C2: a successful token exchange stores as expiry the time at which the answer is
  read plus (lifetime - 60) * 1000 milliseconds, where lifetime is the number of seconds
  the server declared; the method that asked returns with the client in that state. If
  the lifetime is at most 60 seconds the stored expiry is not in the future, so at any
  later time the token is not usable and the next authenticated call, whatever the
  operation, first sends a token exchange.
\<close>

theorem token_expiry_margin:
  assumes "\<not> token_usable c w"
    and "server pf w (token_request pf c) = (Responded r, d)"
    and "ok r"
    and "json_as_token_data pf (body_text r) = Inr td"
    and "w' = w\<lparr>clock := clock w + int d, sent := sent w @ [token_request pf c]\<rparr>"
    and "c' = c\<lparr>accessToken := Some (access_token td),
                  tokenExpiry := clock w' + (expires_in td - 60) * 1000\<rparr>"
  shows "getAccessToken pf c w = (Inr (access_token td), c', w')
     \<and> (\<exists>res w''. inbox_call pf c w op = (res, c', w''))
     \<and> (expires_in td \<le> 60 \<longrightarrow>
          tokenExpiry c' \<le> clock w'
          \<and> (\<forall>w2. clock w' \<le> clock w2 \<longrightarrow>
                \<not> token_usable c' w2
                \<and> sent (snd (snd (getAccessToken pf c' w2))) = sent w2 @ [token_request pf c']
                \<and> (\<exists>rest. sent (snd (snd (inbox_call pf c' w2 op2)))
                      = sent w2 @ token_request pf c' # rest)))"
proof (intro conjI impI allI)
  show g: "getAccessToken pf c w = (Inr (access_token td), c', w')"
    using getAccessToken_granted [OF assms(1-4)] assms(5,6) by simp
  have "fst (snd (inbox_call pf c w op)) = c'"
    using inbox_call_granted(1) [OF assms(1-4), of op] assms(5,6) by simp
  then show "\<exists>res w''. inbox_call pf c w op = (res, c', w'')"
    by (cases "inbox_call pf c w op") auto
next
  assume short: "expires_in td \<le> 60"
  then show late: "tokenExpiry c' \<le> clock w'"
    using assms(6) by simp
  fix w2 :: world
  assume "clock w' \<le> clock w2"
  with late show expired: "\<not> token_usable c' w2"
    by (simp add: token_usable_def)
  then show "sent (snd (snd (getAccessToken pf c' w2))) = sent w2 @ [token_request pf c']"
    by (rule getAccessToken_sent_fresh)
  from expired show "\<exists>rest. sent (snd (snd (inbox_call pf c' w2 op2)))
      = sent w2 @ token_request pf c' # rest"
    unfolding inbox_call_def Let_def by (rule inbox_request_sent_fresh)
qed

theorem token_expiry_margin_witness:
  "getAccessToken (granting 30) (new_InboxClient ''app'' ''secret'') at_1000
     = (Inr ''tok-1'',
        \<lparr>appId = ''app'', appSecret = ''secret'', accessToken = Some ''tok-1'',
         tokenExpiry = 1005 + (30 - 60) * 1000\<rparr>,
        \<lparr>clock = 1005, sent = [token_request (granting 30) (new_InboxClient ''app'' ''secret'')]\<rparr>)
   \<and> \<not> token_usable
        \<lparr>appId = ''app'', appSecret = ''secret'', accessToken = Some ''tok-1'',
         tokenExpiry = 1005 + (30 - 60) * 1000\<rparr>
        \<lparr>clock = 1005, sent = [token_request (granting 30) (new_InboxClient ''app'' ''secret'')]\<rparr>
   \<and> sent (snd (snd (getAccessToken (granting 30)
        \<lparr>appId = ''app'', appSecret = ''secret'', accessToken = Some ''tok-1'',
         tokenExpiry = 1005 + (30 - 60) * 1000\<rparr>
        \<lparr>clock = 1005, sent = [token_request (granting 30) (new_InboxClient ''app'' ''secret'')]\<rparr>)))
       = [token_request (granting 30) (new_InboxClient ''app'' ''secret''),
          token_request (granting 30) (new_InboxClient ''app'' ''secret'')]"
proof -
  let ?c = "new_InboxClient ''app'' ''secret''"
  let ?w' = "\<lparr>clock = 1005, sent = [token_request (granting 30) ?c]\<rparr>"
  let ?c' = "\<lparr>appId = ''app'', appSecret = ''secret'', accessToken = Some ''tok-1'',
         tokenExpiry = 1005 + (30 - 60) * 1000\<rparr>"
  let ?td = "\<lparr>access_token = ''tok-1'', expires_in = 30\<rparr>"
  have 1: "\<not> token_usable ?c at_1000"
    by (simp add: example_defs)
  have 2: "server (granting 30) at_1000 (token_request (granting 30) ?c)
             = (Responded (response 200 ''tok-1''), 5)"
    by (simp add: example_defs)
  have 3: "ok (response 200 ''tok-1'')"
    by (simp add: example_defs)
  have 4: "json_as_token_data (granting 30) (body_text (response 200 ''tok-1'')) = Inr ?td"
    by (simp add: example_defs)
  have 5: "?w' = at_1000\<lparr>clock := clock at_1000 + int 5,
                 sent := sent at_1000 @ [token_request (granting 30) ?c]\<rparr>"
    by (simp add: at_1000_def)
  have 6: "?c' = ?c\<lparr>accessToken := Some (access_token ?td),
                tokenExpiry := clock ?w' + (expires_in ?td - 60) * 1000\<rparr>"
    by (simp add: new_InboxClient_def)
  have same: "token_request (granting 30) ?c' = token_request (granting 30) ?c"
    by (simp add: token_request_def new_InboxClient_def)
  note T = token_expiry_margin [OF 1 2 3 4 5 6, of getResourceOwner getResourceOwner]
  from T have a: "getAccessToken (granting 30) ?c at_1000 = (Inr (access_token ?td), ?c', ?w')"
    by (rule conjunct1)
  have short: "expires_in ?td \<le> 60"
    by simp
  from T short have "\<forall>w2. clock ?w' \<le> clock w2 \<longrightarrow>
      \<not> token_usable ?c' w2
      \<and> sent (snd (snd (getAccessToken (granting 30) ?c' w2))) = sent w2 @ [token_request (granting 30) ?c']
      \<and> (\<exists>rest. sent (snd (snd (inbox_call (granting 30) ?c' w2 getResourceOwner)))
            = sent w2 @ token_request (granting 30) ?c' # rest)"
    by blast
  then have b: "\<not> token_usable ?c' ?w'"
    and c: "sent (snd (snd (getAccessToken (granting 30) ?c' ?w'))) = sent ?w' @ [token_request (granting 30) ?c']"
    by simp_all
  from a b c show ?thesis
    by (simp only: same) simp
qed


text \<open>
  Claim C3: when the client holds a token (a non-empty string: the source tests the
  token's truthiness) and the clock is strictly before the stored expiry,
  \<^verbatim>\<open>getAccessToken\<close> returns that token, leaves the client and the world as they are,
  and every operation sends exactly its own request, with that token as its bearer
  token, and no token exchange. Two operations in a row, the first with no usable token and the second
  strictly before the expiry the first one stored, send exactly three requests: one token
  exchange and the two API requests.
\<close>

theorem cached_token_reused:
  "(accessToken c = Some t \<and> t \<noteq> [] \<and> clock w < tokenExpiry c \<longrightarrow>
      getAccessToken pf c w = (Inr t, c, w)
      \<and> fst (snd (inbox_call pf c w op)) = c
      \<and> sent (snd (snd (inbox_call pf c w op))) = sent w @ [inbox_http pf t op]
      \<and> (''Authorization'', ''Bearer '' @ t) \<in> set (req_headers (inbox_http pf t op))
      \<and> token_exchanges (sent (snd (snd (inbox_call pf c w op)))) = token_exchanges (sent w))
   \<and> (\<not> token_usable c w \<and> server pf w (token_request pf c) = (Responded r, d) \<and> ok r
        \<and> json_as_token_data pf (body_text r) = Inr td \<and> access_token td \<noteq> []
        \<and> c1 = fst (snd (inbox_call pf c w op1)) \<and> w1 = snd (snd (inbox_call pf c w op1))
        \<and> sent w2 = sent w1 \<and> clock w2 < tokenExpiry c1 \<longrightarrow>
      sent (snd (snd (inbox_call pf c1 w2 op2)))
        = sent w @ [token_request pf c, inbox_http pf (access_token td) op1,
                    inbox_http pf (access_token td) op2]
      \<and> token_exchanges (sent (snd (snd (inbox_call pf c1 w2 op2)))) = token_exchanges (sent w) + 1)"
proof (intro conjI impI)
  assume a: "accessToken c = Some t \<and> t \<noteq> [] \<and> clock w < tokenExpiry c"
  then show "getAccessToken pf c w = (Inr t, c, w)"
    by (simp add: getAccessToken_cached)
  from a show "fst (snd (inbox_call pf c w op)) = c"
    by (simp add: inbox_call_sent_cached)
  from a show s: "sent (snd (snd (inbox_call pf c w op))) = sent w @ [inbox_http pf t op]"
    by (simp add: inbox_call_sent_cached)
  show "token_exchanges (sent (snd (snd (inbox_call pf c w op)))) = token_exchanges (sent w)"
    by (simp add: s token_exchanges_append token_exchanges_api)
  show "(''Authorization'', ''Bearer '' @ t) \<in> set (req_headers (inbox_http pf t op))"
    by (rule inbox_http_bearer)
next
  assume a: "\<not> token_usable c w \<and> server pf w (token_request pf c) = (Responded r, d) \<and> ok r
        \<and> json_as_token_data pf (body_text r) = Inr td \<and> access_token td \<noteq> []
        \<and> c1 = fst (snd (inbox_call pf c w op1)) \<and> w1 = snd (snd (inbox_call pf c w op1))
        \<and> sent w2 = sent w1 \<and> clock w2 < tokenExpiry c1"
  then have g: "\<not> token_usable c w" "server pf w (token_request pf c) = (Responded r, d)" "ok r"
    "json_as_token_data pf (body_text r) = Inr td"
    by simp_all
  from a inbox_call_granted [OF g, of op1]
  have c1: "accessToken c1 = Some (access_token td)"
    and w2: "sent w2 = sent w @ [token_request pf c, inbox_http pf (access_token td) op1]"
    by simp_all
  from a have "access_token td \<noteq> []" "clock w2 < tokenExpiry c1"
    by blast+
  from inbox_call_sent_cached(2) [OF c1 this, of pf op2] w2
  show s: "sent (snd (snd (inbox_call pf c1 w2 op2)))
        = sent w @ [token_request pf c, inbox_http pf (access_token td) op1,
                    inbox_http pf (access_token td) op2]"
    by simp
  have "token_exchanges (sent w @ [token_request pf c] @ [inbox_http pf (access_token td) op1]
          @ [inbox_http pf (access_token td) op2]) = token_exchanges (sent w) + 1"
    by (simp only: token_exchanges_append token_exchanges_api token_exchanges_token)
  with s show "token_exchanges (sent (snd (snd (inbox_call pf c1 w2 op2)))) = token_exchanges (sent w) + 1"
    by simp
qed


theorem cached_token_reused_witness:
  "getAccessToken (granting 3600)
       \<lparr>appId = ''app'', appSecret = ''secret'', accessToken = Some ''tok-0'', tokenExpiry = 5000\<rparr>
       at_1000
     = (Inr ''tok-0'',
        \<lparr>appId = ''app'', appSecret = ''secret'', accessToken = Some ''tok-0'', tokenExpiry = 5000\<rparr>,
        at_1000)
   \<and> sent (snd (snd (inbox_call (granting 3600)
        \<lparr>appId = ''app'', appSecret = ''secret'', accessToken = Some ''tok-0'', tokenExpiry = 5000\<rparr>
        at_1000 (listTags None))))
       = [inbox_http (granting 3600) ''tok-0'' (listTags None)]
   \<and> sent (snd (snd (inbox_call (granting 3600)
        (fst (snd (inbox_call (granting 3600) (new_InboxClient ''app'' ''secret'') at_1000 getResourceOwner)))
        (snd (snd (inbox_call (granting 3600) (new_InboxClient ''app'' ''secret'') at_1000 getResourceOwner)))
        (listTags None))))
       = [token_request (granting 3600) (new_InboxClient ''app'' ''secret''),
          inbox_http (granting 3600) ''tok-1'' getResourceOwner,
          inbox_http (granting 3600) ''tok-1'' (listTags None)]
   \<and> token_exchanges (sent (snd (snd (inbox_call (granting 3600)
        (fst (snd (inbox_call (granting 3600) (new_InboxClient ''app'' ''secret'') at_1000 getResourceOwner)))
        (snd (snd (inbox_call (granting 3600) (new_InboxClient ''app'' ''secret'') at_1000 getResourceOwner)))
        (listTags None))))) = 1"
proof -
  let ?pf = "granting 3600"
  let ?c = "new_InboxClient ''app'' ''secret''"
  let ?cc = "\<lparr>appId = ''app'', appSecret = ''secret'', accessToken = Some ''tok-0'', tokenExpiry = 5000\<rparr>"
  let ?td = "\<lparr>access_token = ''tok-1'', expires_in = 3600\<rparr>"
  let ?first = "inbox_call ?pf ?c at_1000 getResourceOwner"
  have 1: "\<not> token_usable ?c at_1000"
    by (simp add: example_defs)
  have 2: "server ?pf at_1000 (token_request ?pf ?c) = (Responded (response 200 ''tok-1''), 5)"
    by (simp add: example_defs)
  have 3: "ok (response 200 ''tok-1'')"
    by (simp add: example_defs)
  have 4: "json_as_token_data ?pf (body_text (response 200 ''tok-1'')) = Inr ?td"
    by (simp add: example_defs)
  have "tokenExpiry (fst (snd ?first)) = 1000 + 5 + (3600 - 60) * 1000"
    using inbox_call_granted(1) [OF 1 2 3 4, of getResourceOwner]
    by (simp add: at_1000_def)
  moreover have "clock (snd (snd ?first)) = 1010"
    by (simp add: inbox_call_def inbox_request_def getAccessToken_unfold exchange_token_def fetch_def Let_def
        example_defs split: prod.splits)
  ultimately have 5: "clock (snd (snd ?first)) < tokenExpiry (fst (snd ?first))"
    by simp
  have two_calls:
    "\<not> token_usable ?c at_1000
     \<and> server ?pf at_1000 (token_request ?pf ?c) = (Responded (response 200 ''tok-1''), 5)
     \<and> ok (response 200 ''tok-1'')
     \<and> json_as_token_data ?pf (body_text (response 200 ''tok-1'')) = Inr ?td
     \<and> access_token ?td \<noteq> []
     \<and> fst (snd ?first) = fst (snd ?first) \<and> snd (snd ?first) = snd (snd ?first)
     \<and> sent (snd (snd ?first)) = sent (snd (snd ?first))
     \<and> clock (snd (snd ?first)) < tokenExpiry (fst (snd ?first))"
    using 1 2 3 4 5 by simp
  have cached: "accessToken ?cc = Some ''tok-0'' \<and> ''tok-0'' \<noteq> [] \<and> clock at_1000 < tokenExpiry ?cc"
    by (simp add: at_1000_def)
  note A = cached_token_reused [where c = ?cc and t = "''tok-0''" and w = at_1000 and pf = ?pf
      and op = "listTags None", THEN conjunct1, THEN mp, OF cached]
  note B = cached_token_reused [where c = ?c and w = at_1000 and pf = ?pf
      and r = "response 200 ''tok-1''" and d = 5 and td = ?td
      and ?op1.0 = getResourceOwner and ?op2.0 = "listTags None"
      and ?c1.0 = "fst (snd ?first)" and ?w1.0 = "snd (snd ?first)" and ?w2.0 = "snd (snd ?first)",
      THEN conjunct2, THEN mp, OF two_calls]
  have s0: "sent at_1000 = []" and t0: "token_exchanges (sent at_1000) = 0"
    by (simp_all add: at_1000_def token_exchanges_def)
  have td: "access_token ?td = ''tok-1''"
    by simp
  from A have a1: "getAccessToken ?pf ?cc at_1000 = (Inr ''tok-0'', ?cc, at_1000)"
    and a2: "sent (snd (snd (inbox_call ?pf ?cc at_1000 (listTags None))))
               = [inbox_http ?pf ''tok-0'' (listTags None)]"
    unfolding s0 by simp_all
  have e0: "token_exchanges [] = 0"
    by (simp add: token_exchanges_def)
  from B [THEN conjunct1]
  have b1: "sent (snd (snd (inbox_call ?pf (fst (snd ?first)) (snd (snd ?first)) (listTags None))))
        = [token_request ?pf ?c, inbox_http ?pf ''tok-1'' getResourceOwner,
           inbox_http ?pf ''tok-1'' (listTags None)]"
    unfolding s0 td by simp
  from B [THEN conjunct2]
  have b2: "token_exchanges (sent (snd (snd (inbox_call ?pf (fst (snd ?first)) (snd (snd ?first))
        (listTags None))))) = 1"
    unfolding s0 e0 by simp
  from a1 a2 b1 b2 show ?thesis
    by (intro conjI)
qed

text \<open>
  Claim C10: when the token exchange is answered with a status outside 200-299, the error
  is raised and the client is exactly as before: \<^verbatim>\<open>accessToken\<close> and
  \<^verbatim>\<open>tokenExpiry\<close> keep their values, also for the operation that asked for the token.
\<close>

theorem failed_exchange_keeps_token:
  assumes "\<not> token_usable c w"
    and "server pf w (token_request pf c) = (Responded r, d)"
    and "\<not> ok r"
    and "e = Error (''Help Scout OAuth error '' @ String_nat (status r) @ '': '' @ body_text r)"
    and "w' = w\<lparr>clock := clock w + int d, sent := sent w @ [token_request pf c]\<rparr>"
  shows "getAccessToken pf c w = (Inl e, c, w')
     \<and> inbox_call pf c w op = (Inl e, c, w')
     \<and> accessToken (fst (snd (inbox_call pf c w op))) = accessToken c
     \<and> tokenExpiry (fst (snd (inbox_call pf c w op))) = tokenExpiry c"
proof -
  have g: "getAccessToken pf c w = (Inl e, c, w')"
    using getAccessToken_refused [OF assms(1-3)] assms(4,5) by simp
  then have "inbox_call pf c w op = (Inl e, c, w')"
    by (simp add: inbox_call_def Let_def inbox_request_no_token)
  with g show ?thesis by simp
qed


theorem failed_exchange_keeps_token_witness:
  "inbox_call refusing stale_client at_1000 getResourceOwner
     = (Inl (Error ''Help Scout OAuth error 401: denied''), stale_client,
        \<lparr>clock = 1005, sent = [token_request refusing stale_client]\<rparr>)
   \<and> accessToken (fst (snd (inbox_call refusing stale_client at_1000 getResourceOwner))) = Some ''old''
   \<and> tokenExpiry (fst (snd (inbox_call refusing stale_client at_1000 getResourceOwner))) = 500"
proof -
  have 1: "\<not> token_usable stale_client at_1000"
    by (simp add: example_defs)
  have 2: "server refusing at_1000 (token_request refusing stale_client)
             = (Responded (response 401 ''denied''), 5)"
    by (simp add: example_defs)
  have 3: "\<not> ok (response 401 ''denied'')"
    by (simp add: example_defs)
  have 4: "Error ''Help Scout OAuth error 401: denied''
      = Error (''Help Scout OAuth error '' @ String_nat (status (response 401 ''denied'')) @ '': ''
          @ body_text (response 401 ''denied''))"
    by (simp add: response_def String_nat.simps)
  have 5: "\<lparr>clock = 1005, sent = [token_request refusing stale_client]\<rparr>
      = at_1000\<lparr>clock := clock at_1000 + int 5,
                 sent := sent at_1000 @ [token_request refusing stale_client]\<rparr>"
    by (simp add: at_1000_def)
  from failed_exchange_keeps_token [OF 1 2 3 4 5, of getResourceOwner]
  show ?thesis by (simp add: stale_client_def)
qed



section \<open>Reading the response\<close>



lemma read_response_empty:
  "status r = 204 \<or> (ok r \<and> (body_text r = [] \<or> content_length r = Some ''0'')) \<Longrightarrow>
   read_response pf api r = Inr (JObj [])"
  by (auto simp: read_response_def ok_def)


lemma docs_call_responded:
  "server pf w (docs_http pf c op) = (Responded r, d) \<Longrightarrow>
   docs_call pf c w op
     = (read_response pf ''Docs'' r,
        w\<lparr>clock := clock w + int d, sent := sent w @ [docs_http pf c op]\<rparr>)"
  by (simp add: docs_call_def docs_http_def docs_request_def Let_def fetch_eq)

lemma docs_call_rejected:
  "server pf w (docs_http pf c op) = (Rejected m, d) \<Longrightarrow>
   docs_call pf c w op
     = (Inl (TypeError m), w\<lparr>clock := clock w + int d, sent := sent w @ [docs_http pf c op]\<rparr>)"
  by (simp add: docs_call_def docs_http_def docs_request_def Let_def fetch_eq)

lemma inbox_call_after_token:
  "getAccessToken pf c w = (Inr token, c', w') \<Longrightarrow>
   server pf w' (inbox_http pf token op) = (fr, d) \<Longrightarrow>
   inbox_call pf c w op
     = ((case fr of Rejected x \<Rightarrow> Inl (TypeError x) | Responded r \<Rightarrow> read_response pf ''Inbox'' r),
        c', w'\<lparr>clock := clock w' + int d, sent := sent w' @ [inbox_http pf token op]\<rparr>)"
  unfolding inbox_call_def inbox_http_def Let_def by (rule inbox_request_after_token)








lemma with_docs_unconfigured:
  "docs cl = None \<Longrightarrow>
   with_docs pf cl w op shown
     = (\<lparr>content = [''Error: HELPSCOUT_API_KEY not configured''], isError = True\<rparr>, cl, w)"
  by (simp add: with_docs_def errResult_def)

lemma with_inbox_unconfigured:
  "inbox cl = None \<Longrightarrow>
   with_inbox pf cl w op shown
     = (\<lparr>content = [''Error: HELPSCOUT_APP_ID and HELPSCOUT_APP_SECRET not configured''],
         isError = True\<rparr>, cl, w)"
  by (simp add: with_inbox_def errResult_def)

lemma docs_handler_unconfigured:
  "docs cl = None \<Longrightarrow>
   docs_handler pf cl w t
     = (\<lparr>content = [''Error: HELPSCOUT_API_KEY not configured''], isError = True\<rparr>, cl, w)"
  by (cases t) (simp_all add: with_docs_unconfigured)

lemma inbox_handler_unconfigured:
  "inbox cl = None \<Longrightarrow>
   inbox_handler pf cl w t
     = (\<lparr>content = [''Error: HELPSCOUT_APP_ID and HELPSCOUT_APP_SECRET not configured''],
         isError = True\<rparr>, cl, w)"
  by (cases t) (simp_all add: with_inbox_unconfigured)

lemma not_configured_texts:
  "sublist ''not configured'' ''Error: HELPSCOUT_API_KEY not configured''"
  "sublist ''not configured'' ''Error: HELPSCOUT_APP_ID and HELPSCOUT_APP_SECRET not configured''"
proof -
  have "''Error: HELPSCOUT_API_KEY not configured''
      = ''Error: HELPSCOUT_API_KEY '' @ ''not configured''"
    by simp
  then show "sublist ''not configured'' ''Error: HELPSCOUT_API_KEY not configured''"
    by (metis sublist_append_leftI)
  have "''Error: HELPSCOUT_APP_ID and HELPSCOUT_APP_SECRET not configured''
      = ''Error: HELPSCOUT_APP_ID and HELPSCOUT_APP_SECRET '' @ ''not configured''"
    by simp
  then show "sublist ''not configured''
      ''Error: HELPSCOUT_APP_ID and HELPSCOUT_APP_SECRET not configured''"
    by (metis sublist_append_leftI)
qed

lemma main_runs: "\<exists>lines. main None cl = Running lines"
  by (simp add: main_def Let_def)



text \<open>
  Claim C5: when the response to an operation's request has status 204, or a status in
  200-299 and a body of length zero (an empty text, or a content-length header of 0), the
  operation returns the empty object: not an error, not null. This holds for the reading of the response in both clients, hence for
  every Docs operation, and for every Inbox operation once it holds a token.
\<close>

theorem empty_body_gives_empty_object:
  assumes "status r = 204 \<or> (ok r \<and> (body_text r = [] \<or> content_length r = Some ''0''))"
  shows "read_response pf api r = Inr (JObj [])
     \<and> (server pf w (docs_http pf c dop) = (Responded r, d)
          \<longrightarrow> fst (docs_call pf c w dop) = Inr (JObj []))
     \<and> (getAccessToken pf ic w = (Inr tok, ic', w')
          \<and> server pf w' (inbox_http pf tok iop) = (Responded r, d)
          \<longrightarrow> fst (inbox_call pf ic w iop) = Inr (JObj []))"
proof (intro conjI impI)
  show e: "read_response pf api r = Inr (JObj [])" for api
    using assms by (rule read_response_empty)
  show "fst (docs_call pf c w dop) = Inr (JObj [])"
    if "server pf w (docs_http pf c dop) = (Responded r, d)"
    using docs_call_responded [OF that] e by simp
  show "fst (inbox_call pf ic w iop) = Inr (JObj [])"
    if "getAccessToken pf ic w = (Inr tok, ic', w')
          \<and> server pf w' (inbox_http pf tok iop) = (Responded r, d)"
    using inbox_call_after_token [of pf ic w tok ic' w' iop "Responded r" d] that e by simp
qed

theorem empty_body_gives_empty_object_witness:
  "status (response 204 []) = 204
   \<and> fst (docs_call no_content \<lparr>apiKey = ''key''\<rparr> at_1000 (deleteSite ''s1'')) = Inr (JObj [])
   \<and> fst (inbox_call no_content stale_client at_1000 (deleteConversation 42)) = Inr (JObj [])
   \<and> ok (response 200 []) \<and> body_text (response 200 []) = []
   \<and> read_response no_content ''Docs'' (response 200 []) = Inr (JObj [])"
proof -
  have 0: "status (response 200 []) = 204
      \<or> (ok (response 200 []) \<and> (body_text (response 200 []) = []
            \<or> content_length (response 200 []) = Some ''0''))"
    by (simp add: response_def ok_def)
  have 1: "status (response 204 []) = 204
      \<or> (ok (response 204 []) \<and> (body_text (response 204 []) = []
            \<or> content_length (response 204 []) = Some ''0''))"
    by (simp add: response_def)
  have 2: "server no_content at_1000 (docs_http no_content \<lparr>apiKey = ''key''\<rparr> (deleteSite ''s1''))
      = (Responded (response 204 []), 5)"
    by (simp add: no_content_def example_platform_def answering_def docs_http_def docs_options_def
        descr_def Let_def new_URL_def DOCS_BASE_URL_def TOKEN_URL_def)
  have 3: "getAccessToken no_content stale_client at_1000
      = (Inr ''tok-1'', stale_client\<lparr>accessToken := Some ''tok-1'', tokenExpiry := 3541005\<rparr>,
         \<lparr>clock = 1005, sent = [token_request no_content stale_client]\<rparr>)"
    by (simp add: getAccessToken_unfold exchange_token_def fetch_def no_content_def example_defs)
  have 4: "server no_content \<lparr>clock = 1005, sent = [token_request no_content stale_client]\<rparr>
        (inbox_http no_content ''tok-1'' (deleteConversation 42))
      = (Responded (response 204 []), 5)"
    by (simp add: no_content_def example_platform_def answering_def inbox_http_def
        inbox_options_def descr_def Let_def new_URL_def INBOX_BASE_URL_def TOKEN_URL_def)
  from empty_body_gives_empty_object [OF 1, of no_content _ at_1000 "\<lparr>apiKey = ''key''\<rparr>"
      "deleteSite ''s1''" 5 stale_client "''tok-1''" _ _ "deleteConversation 42"] 2 3 4
    empty_body_gives_empty_object [OF 0, of no_content "''Docs''"]
  show ?thesis by (simp add: response_def ok_def)
qed






section \<open>Tools without credentials\<close>

text \<open>
  Claim C8: when the Docs API key is not configured (absent or empty), every
  \<^verbatim>\<open>docs_*\<close> handler returns the failure envelope with the message
  \<^verbatim>\<open>HELPSCOUT_API_KEY not configured\<close>; when the OAuth app id or secret is not
  configured, every \<^verbatim>\<open>inbox_*\<close> handler returns it with its own
  \<^verbatim>\<open>not configured\<close> message. In both cases the world is as before: nothing was sent.
  The handler returns a value, and \<^verbatim>\<open>main\<close> keeps running once the transport is
  connected, whatever is configured.
\<close>

theorem unconfigured_tools_fail_without_network:
  "(\<not> truthy (HELPSCOUT_API_KEY env) \<longrightarrow>
      docs_handler pf (make_clients env) w dt
        = (\<lparr>content = [''Error: HELPSCOUT_API_KEY not configured''], isError = True\<rparr>,
           make_clients env, w))
   \<and> (\<not> truthy (HELPSCOUT_APP_ID env) \<or> \<not> truthy (HELPSCOUT_APP_SECRET env) \<longrightarrow>
      inbox_handler pf (make_clients env) w it
        = (\<lparr>content = [''Error: HELPSCOUT_APP_ID and HELPSCOUT_APP_SECRET not configured''],
            isError = True\<rparr>,
           make_clients env, w))
   \<and> sublist ''not configured'' ''Error: HELPSCOUT_API_KEY not configured''
   \<and> sublist ''not configured'' ''Error: HELPSCOUT_APP_ID and HELPSCOUT_APP_SECRET not configured''
   \<and> (\<exists>lines. main None (make_clients env) = Running lines)"
proof (intro conjI impI)
  assume "\<not> truthy (HELPSCOUT_API_KEY env)"
  then have "docs (make_clients env) = None"
    by (simp add: make_clients_def truthy_def split: option.splits)
  then show "docs_handler pf (make_clients env) w dt
        = (\<lparr>content = [''Error: HELPSCOUT_API_KEY not configured''], isError = True\<rparr>,
           make_clients env, w)"
    by (rule docs_handler_unconfigured)
next
  assume "\<not> truthy (HELPSCOUT_APP_ID env) \<or> \<not> truthy (HELPSCOUT_APP_SECRET env)"
  then have "inbox (make_clients env) = None"
    by (auto simp: make_clients_def truthy_def split: option.splits)
  then show "inbox_handler pf (make_clients env) w it
        = (\<lparr>content = [''Error: HELPSCOUT_APP_ID and HELPSCOUT_APP_SECRET not configured''],
            isError = True\<rparr>,
           make_clients env, w)"
    by (rule inbox_handler_unconfigured)
qed (rule not_configured_texts main_runs)+

theorem unconfigured_tools_fail_without_network_witness:
  "\<not> truthy None \<and> \<not> truthy (Some [])
   \<and> docs_handler offline
        (make_clients \<lparr>HELPSCOUT_API_KEY = None, HELPSCOUT_APP_ID = Some ''app'',
                       HELPSCOUT_APP_SECRET = Some []\<rparr>)
        at_1000 (docs_list_sites None)
     = (\<lparr>content = [''Error: HELPSCOUT_API_KEY not configured''], isError = True\<rparr>,
        \<lparr>docs = None, inbox = None\<rparr>, at_1000)
   \<and> inbox_handler offline
        (make_clients \<lparr>HELPSCOUT_API_KEY = None, HELPSCOUT_APP_ID = Some ''app'',
                       HELPSCOUT_APP_SECRET = Some []\<rparr>)
        at_1000 inbox_get_me
     = (\<lparr>content = [''Error: HELPSCOUT_APP_ID and HELPSCOUT_APP_SECRET not configured''],
         isError = True\<rparr>,
        \<lparr>docs = None, inbox = None\<rparr>, at_1000)"
  using unconfigured_tools_fail_without_network [of
      "\<lparr>HELPSCOUT_API_KEY = None, HELPSCOUT_APP_ID = Some ''app'', HELPSCOUT_APP_SECRET = Some []\<rparr>"
      offline at_1000 "docs_list_sites None" inbox_get_me]
  by (simp add: truthy_def make_clients_def)


end
